theory Spec2Isabelle
  imports Main "HOL-Library.Word" "HOL-Library.Sublist"
begin

section \<open>Strings of the source language\<close>

text \<open>
  A string of the source is a sequence of UTF-16 code units. Literals of the source are
  ASCII and are written \<open>js ''...''\<close>.
\<close>

type_synonym jsstring = "16 word list"

definition js :: "string \<Rightarrow> jsstring" where
  "js s = map of_char s"

text \<open>
  \<^verbatim>\<open>String.prototype.trim\<close> strips the WhiteSpace and LineTerminator code points
  of the language definition from both ends.
\<close>

definition isWhiteSpace :: "16 word \<Rightarrow> bool" where
  "isWhiteSpace c \<longleftrightarrow>
     c \<in> {0x0009, 0x000B, 0x000C, 0xFEFF,
          0x0020, 0x00A0, 0x1680,
          0x2000, 0x2001, 0x2002, 0x2003, 0x2004, 0x2005, 0x2006, 0x2007, 0x2008, 0x2009, 0x200A,
          0x202F, 0x205F, 0x3000}"

definition isLineTerminator :: "16 word \<Rightarrow> bool" where
  "isLineTerminator c \<longleftrightarrow> c \<in> {0x000A, 0x000D, 0x2028, 0x2029}"

definition trim :: "jsstring \<Rightarrow> jsstring" where
  "trim s =
     (let strip = dropWhile (\<lambda>c. isWhiteSpace c \<or> isLineTerminator c)
      in rev (strip (rev (strip s))))"

text \<open>\<^verbatim>\<open>s.split('\n')\<close>: the pieces between line feeds; never the empty list.\<close>

fun split_nl :: "jsstring \<Rightarrow> jsstring list" where
  "split_nl [] = [[]]"
| "split_nl (c # cs) =
     (let rest = split_nl cs
      in if c = 0x000A then [] # rest else (c # hd rest) # tl rest)"

text \<open>\<^verbatim>\<open>s.includes(t)\<close>: \<open>t\<close> occurs in \<open>s\<close> as a contiguous run.\<close>

fun includes_str :: "jsstring \<Rightarrow> jsstring \<Rightarrow> bool" where
  "includes_str [] t = (t = [])"
| "includes_str (c # cs) t = (prefix t (c # cs) \<or> includes_str cs t)"

text \<open>
  A value of type \<^verbatim>\<open>string | undefined\<close> is a \<open>jsstring option\<close>. It is truthy when
  it is a non-empty string; \<^verbatim>\<open>a || b\<close> is \<open>a\<close> when \<open>a\<close> is truthy and \<open>b\<close> otherwise.
\<close>

definition truthy :: "jsstring option \<Rightarrow> bool" where
  "truthy a = (case a of None \<Rightarrow> False | Some s \<Rightarrow> s \<noteq> [])"

definition or_else :: "jsstring option \<Rightarrow> jsstring \<Rightarrow> jsstring" where
  "or_else a b = (if truthy a then the a else b)"

section \<open>Thrown values\<close>

text \<open>
  A thrown value is an object with an optional \<^verbatim>\<open>message\<close> and a string conversion
  (what a template literal makes of it). \<^verbatim>\<open>new Error(m)\<close> has the message \<open>m\<close> and
  prints as \<^verbatim>\<open>Error: m\<close>, or as \<^verbatim>\<open>Error\<close> when \<open>m\<close> is empty.
\<close>

record thrown =
  message :: "jsstring option"
  to_string :: jsstring

definition new_Error :: "jsstring \<Rightarrow> thrown" where
  "new_Error m =
     \<lparr>message = Some m, to_string = (if m = [] then js ''Error'' else js ''Error: '' @ m)\<rparr>"

section \<open>types.ts\<close>

record ArticleParagraph =
  text' :: jsstring
  imageUrl :: jsstring

record ArticleTextResponse =
  paragraph' :: jsstring

datatype ImageSize = Size1K | Size2K | Size4K

datatype AppView = ARTICLES | IMAGE_STUDIO | QUICK_CHAT

section \<open>The remote service\<close>

text \<open>
  The parts of a request and of a response are the same objects: an optional text and an
  optional inline payload (encoded bytes and their MIME type).
\<close>

record inlineData =
  data :: jsstring
  mimeType :: jsstring

record part =
  part_text :: "jsstring option"
  inlineData :: "inlineData option"

record content =
  parts :: "part list option"

record candidate =
  content :: "content option"

text \<open>
  A response as the source reads it: its \<^verbatim>\<open>text\<close> (a string or undefined) and its
  \<^verbatim>\<open>candidates\<close> (an array or undefined).
\<close>

record response =
  resp_text :: "jsstring option"
  candidates :: "candidate list option"

text \<open>
  A request names the model, carries the contents (a plain string, or an object with
  parts) and a configuration. The configurations of the source are constant objects:
  \<^item> \<open>ArticleTextConfig\<close>: the system instruction of the article writer, the response
    MIME type \<^verbatim>\<open>application/json\<close> and the schema "array of objects with a required
    string field paragraph";
  \<^item> \<open>ImageConfig ratio size\<close>: \<^verbatim>\<open>imageConfig\<close> with the aspect ratio and, when given,
    the image size;
  \<^item> \<open>QuickConfig\<close>: the system instruction of the quick answer, temperature 0.7 and
    at most 100 output tokens;
  \<^item> \<open>NoConfig\<close>: no configuration.
\<close>

datatype contents = Plain jsstring | Parts "part list"

datatype config =
    ArticleTextConfig
  | ImageConfig jsstring "ImageSize option"
  | QuickConfig
  | NoConfig

typedecl RequestOptions

record request =
  model :: jsstring
  contents :: contents
  config :: config
  requestOptions :: "RequestOptions option"

text \<open>
  The service is outside the program, stateful and not deterministic: a client, built
  from the credential, maps a request and the state of the service to an outcome (a
  thrown value, or a response) and the next state. The world of a run is the state of the
  service and the list of the requests issued so far, oldest first.
\<close>

type_synonym 's client = "request \<Rightarrow> 's \<Rightarrow> (thrown + response) \<times> 's"

type_synonym 's GoogleGenAI = "jsstring \<Rightarrow> 's client"

record 's world =
  service :: 's
  issued :: "request list"

definition generateContent ::
  "'s client \<Rightarrow> request \<Rightarrow> 's world \<Rightarrow> (thrown + response) \<times> 's world" where
  "generateContent ai req w =
     (case ai req (service w) of
        (outcome, s') \<Rightarrow> (outcome, \<lparr>service = s', issued = issued w @ [req]\<rparr>))"

text \<open>
  \<^verbatim>\<open>JSON.parse\<close> is a function of the platform, taken as a parameter: it throws, or
  returns a value. The source tests the value with \<^verbatim>\<open>Array.isArray\<close> and otherwise
  takes it at its declared type \<^verbatim>\<open>ArticleTextResponse[]\<close>.
\<close>

datatype json_value = Array "ArticleTextResponse list" | NonArray

type_synonym JSON_parse = "jsstring \<Rightarrow> thrown + json_value"

section \<open>generateKidArticle\<close>

text \<open>
  The function reads the credential from the environment (here the argument
  \<open>API_KEY\<close>), builds the client from it and runs two steps. What it writes to the
  console has no part in what it returns or requests, and is left out.
\<close>

definition API_KEY_not_set :: thrown where
  "API_KEY_not_set =
     new_Error (js ''API_KEY environment variable is not set. Please configure your API key.'')"

definition articlePrompt :: "jsstring \<Rightarrow> jsstring" where
  "articlePrompt topic =
     js ''Write a funny, educational news article about '' @ [0x22] @ topic @ [0x22] @
     js '' for children aged 6-10.\<newline>  The article should be at least 5 paragraphs long. Each paragraph should be distinct, easy to understand, and include a humorous touch.\<newline>  Format your response as a JSON array of objects, where each object has a 'paragraph' key containing the text for that paragraph.''"

definition article_request :: "jsstring \<Rightarrow> request" where
  "article_request topic =
     \<lparr>model = js ''gemini-3-flash-preview'', contents = Plain (articlePrompt topic),
      config = ArticleTextConfig, requestOptions = None\<rparr>"

text \<open>
  The \<^verbatim>\<open>try\<close> block of the parsing step: \<^verbatim>\<open>JSON.parse\<close> may throw, and the block
  itself throws when the value is not an array or is shorter than 5.
\<close>

definition try_parse :: "JSON_parse \<Rightarrow> jsstring \<Rightarrow> thrown + ArticleTextResponse list" where
  "try_parse JSON_parse jsonString =
     (case JSON_parse jsonString of
        Inl syntaxError \<Rightarrow> Inl syntaxError
      | Inr NonArray \<Rightarrow>
          Inl (new_Error (js ''Generated article does not contain at least 5 paragraphs or is not in the expected format.''))
      | Inr (Array paragraphsData) \<Rightarrow>
          if length paragraphsData < 5
          then Inl (new_Error (js ''Generated article does not contain at least 5 paragraphs or is not in the expected format.''))
          else Inr paragraphsData)"

text \<open>
  The \<^verbatim>\<open>catch\<close> block: whatever the \<^verbatim>\<open>try\<close> block threw is logged and dropped, and
  the paragraphs are taken from the lines of the raw text.
\<close>

definition fallback_lines :: "jsstring \<Rightarrow> thrown + ArticleTextResponse list" where
  "fallback_lines jsonString =
     (let lines = filter (\<lambda>line. length (trim line) > 0) (split_nl jsonString);
          paragraphsData =
            map (\<lambda>line. \<lparr>paragraph' = line\<rparr>) (take (max 5 (length lines)) lines)
      in if length paragraphsData < 5
         then Inl (new_Error
                (js ''Failed to parse article text or generate enough paragraphs. Raw response: '' @ jsonString))
         else Inr paragraphsData)"

definition parse_paragraphs :: "JSON_parse \<Rightarrow> jsstring \<Rightarrow> thrown + ArticleTextResponse list" where
  "parse_paragraphs JSON_parse jsonString =
     (case try_parse JSON_parse jsonString of
        Inr paragraphsData \<Rightarrow> Inr paragraphsData
      | Inl parseError \<Rightarrow> fallback_lines jsonString)"

text \<open>Step 1 of the source: the text request, the empty check and the parsing step.\<close>

definition text_phase ::
  "'s client \<Rightarrow> JSON_parse \<Rightarrow> jsstring \<Rightarrow> 's world \<Rightarrow>
     (thrown + ArticleTextResponse list) \<times> 's world" where
  "text_phase ai JSON_parse topic w =
     (case generateContent ai (article_request topic) w of
        (Inl error, w') \<Rightarrow>
          (Inl (new_Error
                 (js ''Could not generate article text. Please try a different topic. '' @
                  or_else (message error) (to_string error))), w')
      | (Inr articleTextResponse, w') \<Rightarrow>
          (let jsonString = resp_text articleTextResponse
           in if \<not> truthy jsonString
              then (Inl (new_Error (js ''Failed to get article text from Gemini API.'')), w')
              else (parse_paragraphs JSON_parse (the jsonString), w')))"

definition imagePrompt :: "jsstring \<Rightarrow> jsstring" where
  "imagePrompt p =
     js ''Generate a 3D, cartoon-style, funny image related to this text for kids: '' @
     [0x22] @ p @ [0x22] @
     js ''. Focus on bright colors, engaging characters, and a light-hearted mood.''"

definition paragraph_image_request :: "jsstring \<Rightarrow> request" where
  "paragraph_image_request p =
     \<lparr>model = js ''gemini-2.5-flash-image'',
      contents = Parts [\<lparr>part_text = Some (imagePrompt p), inlineData = None\<rparr>],
      config = ImageConfig (js ''1:1'') None, requestOptions = None\<rparr>"

definition failure_placeholder :: jsstring where
  "failure_placeholder = js ''https://picsum.photos/400/400?grayscale''"

definition default_placeholder :: jsstring where
  "default_placeholder = js ''https://picsum.photos/400/400?blur=2''"

text \<open>
  \<^verbatim>\<open>response.candidates?.[0]?.content?.parts?.find(part => part.inlineData)\<close>: the
  first part of the first candidate that has an inline payload.
\<close>

definition imagePart :: "response \<Rightarrow> part option" where
  "imagePart r =
     (case candidates r of
        None \<Rightarrow> None
      | Some [] \<Rightarrow> None
      | Some (c # _) \<Rightarrow>
          (case content c of
             None \<Rightarrow> None
           | Some ct \<Rightarrow>
               (case parts ct of
                  None \<Rightarrow> None
                | Some ps \<Rightarrow> find (\<lambda>p. inlineData p \<noteq> None) ps)))"

definition data_url :: "inlineData \<Rightarrow> jsstring" where
  "data_url d = js ''data:'' @ mimeType d @ js '';base64,'' @ data d"

text \<open>
  The image reference the loop attaches after a call that returned:
  the default placeholder unless the response has an inline payload.
\<close>

definition response_imageUrl :: "response \<Rightarrow> jsstring" where
  "response_imageUrl imageResponse =
     (case imagePart imageResponse of
        None \<Rightarrow> default_placeholder
      | Some p \<Rightarrow>
          (case inlineData p of
             None \<Rightarrow> default_placeholder
           | Some d \<Rightarrow> data_url d))"

text \<open>
  Step 2 of the source: the loop over \<^verbatim>\<open>paragraphsData\<close>, with the accumulator
  \<^verbatim>\<open>articleWithImages\<close>. A call that throws pushes the failure placeholder and the
  loop continues.
\<close>

fun image_loop ::
  "'s client \<Rightarrow> ArticleTextResponse list \<Rightarrow> ArticleParagraph list \<Rightarrow> 's world \<Rightarrow>
     ArticleParagraph list \<times> 's world" where
  "image_loop ai [] articleWithImages w = (articleWithImages, w)"
| "image_loop ai (pData # rest) articleWithImages w =
     (case generateContent ai (paragraph_image_request (paragraph' pData)) w of
        (Inl imageError, w') \<Rightarrow>
          image_loop ai rest
            (articleWithImages @ [\<lparr>text' = paragraph' pData, imageUrl = failure_placeholder\<rparr>]) w'
      | (Inr imageResponse, w') \<Rightarrow>
          image_loop ai rest
            (articleWithImages @
               [\<lparr>text' = paragraph' pData, imageUrl = response_imageUrl imageResponse\<rparr>]) w')"

definition generateKidArticle ::
  "'s GoogleGenAI \<Rightarrow> JSON_parse \<Rightarrow> jsstring option \<Rightarrow> jsstring \<Rightarrow> 's world \<Rightarrow>
     (thrown + ArticleParagraph list) \<times> 's world" where
  "generateKidArticle GoogleGenAI JSON_parse API_KEY topic w =
     (if \<not> truthy API_KEY then (Inl API_KEY_not_set, w)
      else
        let ai = GoogleGenAI (the API_KEY)
        in case text_phase ai JSON_parse topic w of
             (Inl e, w1) \<Rightarrow> (Inl e, w1)
           | (Inr paragraphsData, w1) \<Rightarrow>
               (case image_loop ai paragraphsData [] w1 of
                  (articleWithImages, w2) \<Rightarrow> (Inr articleWithImages, w2)))"

section \<open>generateImage, editImage, getQuickResponse\<close>

text \<open>
  The tail of the \<^verbatim>\<open>try\<close> block of \<open>generateImage\<close> and \<open>editImage\<close>: the data URL of
  the inline payload, or a thrown error with the given message.
\<close>

definition image_or_throw :: "jsstring \<Rightarrow> response \<Rightarrow> thrown + jsstring" where
  "image_or_throw msg r =
     (case imagePart r of
        None \<Rightarrow> Inl (new_Error msg)
      | Some p \<Rightarrow>
          (case inlineData p of
             None \<Rightarrow> Inl (new_Error msg)
           | Some d \<Rightarrow> Inr (data_url d)))"

definition image_request :: "jsstring \<Rightarrow> ImageSize \<Rightarrow> RequestOptions option \<Rightarrow> request" where
  "image_request prompt imageSize opts =
     \<lparr>model = js ''gemini-3-pro-image-preview'',
      contents = Parts
        [\<lparr>part_text = Some
            (js ''Generate a vibrant, high-quality, cartoon-style image for kids based on: '' @
             [0x22] @ prompt @ [0x22] @
             js ''. Ensure it is visually appealing and child-friendly.''),
          inlineData = None\<rparr>],
      config = ImageConfig (js ''1:1'') (Some imageSize), requestOptions = opts\<rparr>"

definition generateImage ::
  "'s GoogleGenAI \<Rightarrow> jsstring option \<Rightarrow> jsstring \<Rightarrow> ImageSize \<Rightarrow> RequestOptions option \<Rightarrow>
     's world \<Rightarrow> (thrown + jsstring) \<times> 's world" where
  "generateImage GoogleGenAI API_KEY prompt imageSize opts w =
     (if \<not> truthy API_KEY then (Inl API_KEY_not_set, w)
      else
        let ai = GoogleGenAI (the API_KEY)
        in case generateContent ai (image_request prompt imageSize opts) w of
             (outcome, w') \<Rightarrow>
               (case (case outcome of
                        Inl error \<Rightarrow> Inl error
                      | Inr r \<Rightarrow> image_or_throw (js ''No image data found in the response.'') r) of
                  Inr url \<Rightarrow> (Inr url, w')
                | Inl error \<Rightarrow>
                    (Inl (new_Error
                           (js ''Failed to generate image: '' @
                            or_else (message error) (js ''An unknown error occurred.''))), w')))"

definition edit_request :: "jsstring \<Rightarrow> jsstring \<Rightarrow> jsstring \<Rightarrow> request" where
  "edit_request originalImageBase64Data originalImageMimeType editPrompt =
     \<lparr>model = js ''gemini-2.5-flash-image'',
      contents = Parts
        [\<lparr>part_text = None,
          inlineData = Some \<lparr>data = originalImageBase64Data, mimeType = originalImageMimeType\<rparr>\<rparr>,
         \<lparr>part_text = Some
            (js ''Edit this image for kids in a funny, cartoon style: '' @ editPrompt),
          inlineData = None\<rparr>],
      config = NoConfig, requestOptions = None\<rparr>"

definition editImage ::
  "'s GoogleGenAI \<Rightarrow> jsstring option \<Rightarrow> jsstring \<Rightarrow> jsstring \<Rightarrow> jsstring \<Rightarrow>
     's world \<Rightarrow> (thrown + jsstring) \<times> 's world" where
  "editImage GoogleGenAI API_KEY originalImageBase64Data originalImageMimeType editPrompt w =
     (if \<not> truthy API_KEY then (Inl API_KEY_not_set, w)
      else
        let ai = GoogleGenAI (the API_KEY)
        in case generateContent ai
                  (edit_request originalImageBase64Data originalImageMimeType editPrompt) w of
             (outcome, w') \<Rightarrow>
               (case (case outcome of
                        Inl error \<Rightarrow> Inl error
                      | Inr r \<Rightarrow>
                          image_or_throw (js ''No edited image data found in the response.'') r) of
                  Inr url \<Rightarrow> (Inr url, w')
                | Inl error \<Rightarrow>
                    (Inl (new_Error
                           (js ''Failed to edit image: '' @
                            or_else (message error) (js ''An unknown error occurred.''))), w')))"

definition quick_request :: "jsstring \<Rightarrow> request" where
  "quick_request prompt =
     \<lparr>model = js ''gemini-2.5-flash-lite'', contents = Plain prompt,
      config = QuickConfig, requestOptions = None\<rparr>"

definition quick_fallback :: jsstring where
  "quick_fallback = js ''Oops! I tried to think of a fun fact, but my wires got a bit tangled!''"

definition getQuickResponse ::
  "'s GoogleGenAI \<Rightarrow> jsstring option \<Rightarrow> jsstring \<Rightarrow> 's world \<Rightarrow>
     (thrown + jsstring) \<times> 's world" where
  "getQuickResponse GoogleGenAI API_KEY prompt w =
     (if \<not> truthy API_KEY then (Inl API_KEY_not_set, w)
      else
        let ai = GoogleGenAI (the API_KEY)
        in case generateContent ai (quick_request prompt) w of
             (Inr r, w') \<Rightarrow> (Inr (or_else (resp_text r) quick_fallback), w')
           | (Inl error, w') \<Rightarrow>
               (Inl (new_Error
                      (js ''Failed to get quick response: '' @
                       or_else (message error) (js ''An unknown error occurred.''))), w'))"

section \<open>App.tsx: handleGenerateArticle\<close>

text \<open>The state of the component, one field per \<^verbatim>\<open>useState\<close>.\<close>

record app_state =
  topic :: jsstring
  article :: "ArticleParagraph list option"
  loading :: bool
  error :: "jsstring option"
  currentView :: AppView
  apiKeySelected :: bool

definition handleGenerateArticle ::
  "'s GoogleGenAI \<Rightarrow> JSON_parse \<Rightarrow> jsstring option \<Rightarrow> app_state \<Rightarrow> 's world \<Rightarrow>
     app_state \<times> 's world" where
  "handleGenerateArticle GoogleGenAI JSON_parse API_KEY st w =
     (if trim (topic st) = []
      then (st\<lparr>error := Some (js ''Please enter a current event topic to generate an article.'')\<rparr>, w)
      else
        let st1 = st\<lparr>loading := True, error := None, article := None\<rparr>
        in case generateKidArticle GoogleGenAI JSON_parse API_KEY (topic st) w of
             (Inr generatedArticle, w') \<Rightarrow>
               (st1\<lparr>article := Some generatedArticle, loading := False\<rparr>, w')
           | (Inl err, w') \<Rightarrow>
               (let st2 = st1\<lparr>error := Some
                            (js ''Failed to generate article: '' @
                             or_else (message err) (js ''An unknown error occurred.''))\<rparr>;
                    st3 = (if truthy (message err) \<and>
                              includes_str (the (message err))
                                (js ''Requested entity was not found.'')
                           then st2\<lparr>apiKeySelected := False\<rparr> else st2)
                in (st3\<lparr>loading := False\<rparr>, w')))"

section \<open>Runs of the service\<close>

text \<open>
  The outcomes a client gives to a list of requests issued one after the other from a
  state of the service, and the state it is left in.
\<close>

fun call_outcomes :: "'s client \<Rightarrow> request list \<Rightarrow> 's \<Rightarrow> (thrown + response) list" where
  "call_outcomes ai [] s = []"
| "call_outcomes ai (q # qs) s = (case ai q s of (outcome, s') \<Rightarrow> outcome # call_outcomes ai qs s')"

fun call_state :: "'s client \<Rightarrow> request list \<Rightarrow> 's \<Rightarrow> 's" where
  "call_state ai [] s = s"
| "call_state ai (q # qs) s = (case ai q s of (outcome, s') \<Rightarrow> call_state ai qs s')"

text \<open>The image reference of one entry, from the outcome of its image call.\<close>

definition outcome_imageUrl :: "thrown + response \<Rightarrow> jsstring" where
  "outcome_imageUrl outcome =
     (case outcome of
        Inl imageError \<Rightarrow> failure_placeholder
      | Inr imageResponse \<Rightarrow> response_imageUrl imageResponse)"

text \<open>The image requests of the loop, one per paragraph, in the order of the paragraphs.\<close>

definition image_requests :: "ArticleTextResponse list \<Rightarrow> request list" where
  "image_requests paragraphsData = map (\<lambda>p. paragraph_image_request (paragraph' p)) paragraphsData"

text \<open>
  Every inline payload a response holds, in any part of any candidate.
\<close>

definition inline_payloads :: "response \<Rightarrow> inlineData list" where
  "inline_payloads r =
     concat (map (\<lambda>c. case content c of
                         None \<Rightarrow> []
                       | Some ct \<Rightarrow>
                           (case parts ct of
                              None \<Rightarrow> []
                            | Some ps \<Rightarrow> List.map_filter inlineData ps))
                 (case candidates r of None \<Rightarrow> [] | Some cs \<Rightarrow> cs))"

section \<open>Lines of a text\<close>

text \<open>
  The lines of a text, said without the program's splitting function: joining them with
  line feeds gives the text back, and no line holds a line feed. The non-blank lines are
  those that are not empty after trimming.
\<close>

fun join_nl :: "jsstring list \<Rightarrow> jsstring" where
  "join_nl [] = []"
| "join_nl [l] = l"
| "join_nl (l # ls) = l @ [0x000A] @ join_nl ls"

definition nonblank_lines :: "jsstring \<Rightarrow> jsstring list" where
  "nonblank_lines raw = filter (\<lambda>line. trim line \<noteq> []) (split_nl raw)"

section \<open>Example runs\<close>

text \<open>
  A service that answers the first request with six lines of plain text, one of them
  blank, and the image requests after it with an inline image, except the second
  (a thrown error) and the third (a response without candidates).
\<close>

definition example_raw :: jsstring where
  "example_raw = js ''a\<newline>b\<newline> \<newline>c\<newline>d\<newline>e''"

definition example_payload :: response where
  "example_payload =
     \<lparr>resp_text = None,
      candidates = Some [\<lparr>content = Some \<lparr>parts = Some
        [\<lparr>part_text = Some (js ''here''), inlineData = None\<rparr>,
         \<lparr>part_text = None,
          inlineData = Some \<lparr>data = js ''iVBORw0KGgo='', mimeType = js ''image/png''\<rparr>\<rparr>]\<rparr>\<rparr>]\<rparr>"

definition example_GoogleGenAI :: "nat GoogleGenAI" where
  "example_GoogleGenAI apiKey req n =
     (if n = 0 then Inr \<lparr>resp_text = Some example_raw, candidates = None\<rparr>
      else if n = 2 then Inl (new_Error (js ''503 Service Unavailable''))
      else if n = 3 then Inr \<lparr>resp_text = None, candidates = Some []\<rparr>
      else Inr example_payload,
      Suc n)"

text \<open>What \<^verbatim>\<open>JSON.parse\<close> does on a text that is not JSON: it throws a SyntaxError.\<close>

definition syntax_error :: thrown where
  "syntax_error =
     \<lparr>message = Some (js ''Unexpected token''), to_string = js ''SyntaxError: Unexpected token''\<rparr>"

definition example_parse :: JSON_parse where
  "example_parse s = Inl syntax_error"

definition example_world :: "nat world" where
  "example_world = \<lparr>service = 0, issued = []\<rparr>"

definition example_article :: "ArticleParagraph list" where
  "example_article =
     [\<lparr>text' = js ''a'', imageUrl = js ''data:image/png;base64,iVBORw0KGgo=''\<rparr>,
      \<lparr>text' = js ''b'', imageUrl = js ''https://picsum.photos/400/400?grayscale''\<rparr>,
      \<lparr>text' = js ''c'', imageUrl = js ''https://picsum.photos/400/400?blur=2''\<rparr>,
      \<lparr>text' = js ''d'', imageUrl = js ''data:image/png;base64,iVBORw0KGgo=''\<rparr>,
      \<lparr>text' = js ''e'', imageUrl = js ''data:image/png;base64,iVBORw0KGgo=''\<rparr>]"

text \<open>A service that gives the same outcome to every request.\<close>

definition constant_GoogleGenAI :: "thrown + response \<Rightarrow> unit GoogleGenAI" where
  "constant_GoogleGenAI outcome apiKey req s = (outcome, s)"

definition unit_world :: "unit world" where
  "unit_world = \<lparr>service = (), issued = []\<rparr>"

text \<open>
  A service whose text answer is a JSON array of three paragraph objects, printed on five
  lines, and \<^verbatim>\<open>JSON.parse\<close> on that text.
\<close>

definition short_json :: jsstring where
  "short_json =
     js ''[\<newline>{\"paragraph\":\"a\"},\<newline>{\"paragraph\":\"b\"},\<newline>{\"paragraph\":\"c\"}\<newline>]''"

definition short_json_parse :: JSON_parse where
  "short_json_parse s =
     (if s = short_json
      then Inr (Array [\<lparr>paragraph' = js ''a''\<rparr>, \<lparr>paragraph' = js ''b''\<rparr>, \<lparr>paragraph' = js ''c''\<rparr>])
      else Inl syntax_error)"

definition short_json_GoogleGenAI :: "nat GoogleGenAI" where
  "short_json_GoogleGenAI apiKey req n =
     (if n = 0 then Inr \<lparr>resp_text = Some short_json, candidates = None\<rparr>
      else Inr example_payload,
      Suc n)"

definition example_state :: app_state where
  "example_state =
     \<lparr>topic = js '' '', article = None, loading = False, error = None,
      currentView = ARTICLES, apiKeySelected = True\<rparr>"

section \<open>Strings and lines\<close>

lemma take_max_all: "take (max 5 (length xs)) xs = xs"
  by simp

lemma trim_Nil_iff:
  "trim s = [] \<longleftrightarrow> (\<forall>c\<in>set s. isWhiteSpace c \<or> isLineTerminator c)"
proof -
  let ?P = "\<lambda>c. isWhiteSpace c \<or> isLineTerminator c"
  have "(\<forall>x\<in>set (dropWhile ?P s). ?P x) \<longleftrightarrow> dropWhile ?P s = []"
  proof
    assume all: "\<forall>x\<in>set (dropWhile ?P s). ?P x"
    show "dropWhile ?P s = []"
    proof (rule ccontr)
      assume ne: "dropWhile ?P s \<noteq> []"
      then have "\<not> ?P (hd (dropWhile ?P s))" by (rule hd_dropWhile)
      moreover have "hd (dropWhile ?P s) \<in> set (dropWhile ?P s)" using ne by simp
      ultimately show False using all by blast
    qed
  next
    assume e: "dropWhile ?P s = []"
    show "\<forall>x\<in>set (dropWhile ?P s). ?P x" unfolding e by simp
  qed
  then show ?thesis
    by (simp add: trim_def Let_def dropWhile_eq_Nil_conv)
qed

lemma split_nl_not_Nil: "split_nl s \<noteq> []"
  by (induction s) (auto simp: Let_def)

lemma split_nl_no_newline: "l \<in> set (split_nl s) \<Longrightarrow> 0x000A \<notin> set l"
proof (induction s arbitrary: l)
  case Nil
  then show ?case by simp
next
  case (Cons c cs)
  obtain h t where ht: "split_nl cs = h # t"
    using split_nl_not_Nil [of cs] by (cases "split_nl cs") auto
  show ?case
  proof (cases "c = 0x000A")
    case True
    with Cons show ?thesis by (auto simp: Let_def)
  next
    case False
    with Cons.prems ht have "l = c # h \<or> l \<in> set t" by (auto simp: Let_def)
    then show ?thesis
    proof
      assume "l = c # h"
      moreover have "0x000A \<notin> set h" using Cons.IH [of h] ht by simp
      ultimately show ?thesis using False by auto
    next
      assume "l \<in> set t"
      then show ?thesis using Cons.IH [of l] ht by simp
    qed
  qed
qed

lemma join_nl_Cons: "ls \<noteq> [] \<Longrightarrow> join_nl (l # ls) = l @ [0x000A] @ join_nl ls"
  by (cases ls) auto

lemma join_split_nl: "join_nl (split_nl s) = s"
proof (induction s)
  case Nil
  show ?case by simp
next
  case (Cons c cs)
  obtain h t where ht: "split_nl cs = h # t"
    using split_nl_not_Nil [of cs] by (cases "split_nl cs") auto
  show ?case
  proof (cases "c = 0x000A")
    case True
    then show ?thesis using Cons.IH by (simp add: join_nl_Cons split_nl_not_Nil Let_def)
  next
    case False
    then show ?thesis using Cons.IH ht by (cases t) (auto simp: Let_def)
  qed
qed

lemma split_nl_line: "0x000A \<notin> set l \<Longrightarrow> split_nl l = [l]"
  by (induction l) (auto simp: Let_def)

lemma split_nl_append:
  "0x000A \<notin> set l \<Longrightarrow> split_nl (l @ 0x000A # s) = l # split_nl s"
  by (induction l) (auto simp: Let_def)

lemma split_join_nl:
  "ls \<noteq> [] \<Longrightarrow> \<forall>l\<in>set ls. 0x000A \<notin> set l \<Longrightarrow> split_nl (join_nl ls) = ls"
proof (induction ls rule: join_nl.induct)
  case 1
  then show ?case by simp
next
  case (2 l)
  then show ?case by (simp add: split_nl_line)
next
  case (3 l k ks)
  then show ?case by (simp add: split_nl_append)
qed

lemma includes_str_self: "includes_str t t"
  by (cases t) auto

lemma includes_str_append: "includes_str (p @ t) t"
  by (induction p) (auto simp: includes_str_self)

section \<open>The parsing step\<close>

lemma fallback_lines_eq:
  "fallback_lines raw =
     (if length (nonblank_lines raw) < 5
      then Inl (new_Error
             (js ''Failed to parse article text or generate enough paragraphs. Raw response: '' @ raw))
      else Inr (map (\<lambda>line. \<lparr>paragraph' = line\<rparr>) (nonblank_lines raw)))"
  by (simp add: fallback_lines_def nonblank_lines_def Let_def)

lemma parse_paragraphs_Inr:
  assumes "parse_paragraphs JSON_parse raw = Inr ps"
  shows "5 \<le> length ps \<and>
         (JSON_parse raw = Inr (Array ps) \<or>
          ps = map (\<lambda>line. \<lparr>paragraph' = line\<rparr>) (nonblank_lines raw))"
  using assms
  by (auto simp: parse_paragraphs_def try_parse_def fallback_lines_eq
           split: sum.splits json_value.splits if_splits)

lemma text_phase_Inr:
  assumes "text_phase ai JSON_parse t w = (Inr ps, w1)"
  shows "\<exists>r raw. ai (article_request t) (service w) = (Inr r, service w1) \<and>
           resp_text r = Some raw \<and> raw \<noteq> [] \<and>
           parse_paragraphs JSON_parse raw = Inr ps \<and>
           issued w1 = issued w @ [article_request t]"
proof (cases "ai (article_request t) (service w)")
  case (Pair outcome s')
  show ?thesis
  proof (cases outcome)
    case (Inl e)
    with Pair assms show ?thesis
      by (simp add: text_phase_def generateContent_def)
  next
    case (Inr r)
    with Pair assms show ?thesis
      by (cases "resp_text r")
         (auto simp: text_phase_def generateContent_def truthy_def Let_def split: if_splits)
  qed
qed

section \<open>The image loop\<close>

lemma length_call_outcomes: "length (call_outcomes ai qs s) = length qs"
  by (induction qs arbitrary: s) (auto split: prod.splits)

lemma image_loop_run:
  "image_loop ai ps acc w =
     (acc @ map2 (\<lambda>p outcome. \<lparr>text' = paragraph' p, imageUrl = outcome_imageUrl outcome\<rparr>) ps
              (call_outcomes ai (image_requests ps) (service w)),
      \<lparr>service = call_state ai (image_requests ps) (service w),
       issued = issued w @ image_requests ps\<rparr>)"
proof (induction ps arbitrary: acc w)
  case Nil
  show ?case by (simp add: image_requests_def)
next
  case (Cons p ps)
  show ?case
    by (cases "ai (paragraph_image_request (paragraph' p)) (service w)")
       (auto simp: Cons.IH image_requests_def generateContent_def outcome_imageUrl_def
             split: sum.splits)
qed

lemma generateKidArticle_run:
  assumes "truthy API_KEY"
    and "text_phase (GoogleGenAI (the API_KEY)) JSON_parse t w = (Inr ps, w1)"
  shows "generateKidArticle GoogleGenAI JSON_parse API_KEY t w =
     (Inr (map2 (\<lambda>p outcome. \<lparr>text' = paragraph' p, imageUrl = outcome_imageUrl outcome\<rparr>) ps
             (call_outcomes (GoogleGenAI (the API_KEY)) (image_requests ps) (service w1))),
      \<lparr>service = call_state (GoogleGenAI (the API_KEY)) (image_requests ps) (service w1),
       issued = issued w1 @ image_requests ps\<rparr>)"
  using assms by (simp add: generateKidArticle_def Let_def image_loop_run)

lemma generateKidArticle_Inr:
  assumes "fst (generateKidArticle GoogleGenAI JSON_parse API_KEY t w) = Inr result"
  shows "truthy API_KEY \<and>
         (\<exists>ps w1. text_phase (GoogleGenAI (the API_KEY)) JSON_parse t w = (Inr ps, w1))"
proof (cases "truthy API_KEY")
  case False
  with assms show ?thesis by (simp add: generateKidArticle_def)
next
  case True
  obtain res w1 where tp: "text_phase (GoogleGenAI (the API_KEY)) JSON_parse t w = (res, w1)"
    by (cases "text_phase (GoogleGenAI (the API_KEY)) JSON_parse t w") auto
  show ?thesis
  proof (cases res)
    case (Inl e)
    with assms True tp show ?thesis by (simp add: generateKidArticle_def Let_def)
  next
    case (Inr ps)
    with True tp show ?thesis by simp
  qed
qed

lemma data_url_not_Nil: "data_url d \<noteq> []"
  by (simp add: data_url_def js_def)

lemma outcome_imageUrl_not_Nil: "outcome_imageUrl outcome \<noteq> []"
  by (auto simp: outcome_imageUrl_def response_imageUrl_def data_url_not_Nil
        failure_placeholder_def default_placeholder_def js_def
        split: sum.splits option.splits)

section \<open>The example runs\<close>

lemma example_nonblank_lines:
  "nonblank_lines example_raw = [js ''a'', js ''b'', js ''c'', js ''d'', js ''e'']"
  by (simp add: nonblank_lines_def example_raw_def js_def trim_def
        isWhiteSpace_def isLineTerminator_def)

lemma example_text_phase:
  "text_phase (example_GoogleGenAI k) example_parse t example_world =
     (Inr (map (\<lambda>line. \<lparr>paragraph' = line\<rparr>) [js ''a'', js ''b'', js ''c'', js ''d'', js ''e'']),
      \<lparr>service = Suc 0, issued = [article_request t]\<rparr>)"
proof -
  have "example_raw \<noteq> []" by (simp add: example_raw_def js_def)
  then show ?thesis
    by (simp add: text_phase_def generateContent_def example_GoogleGenAI_def example_world_def
          truthy_def parse_paragraphs_def try_parse_def example_parse_def fallback_lines_eq
          example_nonblank_lines)
qed

lemma example_key: "truthy (Some (js ''key''))"
  by (simp add: truthy_def js_def)

lemma example_outcomes:
  "call_outcomes (example_GoogleGenAI k) [q1, q2, q3, q4, q5] (Suc 0) =
     [Inr example_payload, Inl (new_Error (js ''503 Service Unavailable'')),
      Inr \<lparr>resp_text = None, candidates = Some []\<rparr>, Inr example_payload, Inr example_payload]"
  by (simp add: example_GoogleGenAI_def)

lemma example_payload_imageUrl:
  "response_imageUrl example_payload = js ''data:image/png;base64,iVBORw0KGgo=''"
  by (simp add: response_imageUrl_def imagePart_def example_payload_def data_url_def js_def)

lemma example_empty_imageUrl:
  "response_imageUrl \<lparr>resp_text = None, candidates = Some []\<rparr> = default_placeholder"
  by (simp add: response_imageUrl_def imagePart_def)

lemma example_run:
  "generateKidArticle example_GoogleGenAI example_parse (Some (js ''key'')) t example_world =
     (Inr example_article,
      \<lparr>service = 6,
       issued = article_request t #
         map paragraph_image_request [js ''a'', js ''b'', js ''c'', js ''d'', js ''e'']\<rparr>)"
proof -
  have "generateKidArticle example_GoogleGenAI example_parse (Some (js ''key'')) t example_world =
     (Inr (map2 (\<lambda>p outcome. \<lparr>text' = paragraph' p, imageUrl = outcome_imageUrl outcome\<rparr>)
             (map (\<lambda>line. \<lparr>paragraph' = line\<rparr>) [js ''a'', js ''b'', js ''c'', js ''d'', js ''e''])
             (call_outcomes (example_GoogleGenAI (the (Some (js ''key''))))
                (image_requests (map (\<lambda>line. \<lparr>paragraph' = line\<rparr>) [js ''a'', js ''b'', js ''c'', js ''d'', js ''e'']))
                (service \<lparr>service = Suc 0, issued = [article_request t]\<rparr>))),
      \<lparr>service = call_state (example_GoogleGenAI (the (Some (js ''key''))))
                   (image_requests (map (\<lambda>line. \<lparr>paragraph' = line\<rparr>) [js ''a'', js ''b'', js ''c'', js ''d'', js ''e'']))
                   (service \<lparr>service = Suc 0, issued = [article_request t]\<rparr>),
       issued = issued \<lparr>service = Suc 0, issued = [article_request t]\<rparr> @
                image_requests (map (\<lambda>line. \<lparr>paragraph' = line\<rparr>) [js ''a'', js ''b'', js ''c'', js ''d'', js ''e''])\<rparr>)"
    by (rule generateKidArticle_run [OF example_key example_text_phase])
  also have "\<dots> = (Inr example_article,
      \<lparr>service = 6,
       issued = article_request t #
         map paragraph_image_request [js ''a'', js ''b'', js ''c'', js ''d'', js ''e'']\<rparr>)"
    by (simp add: image_requests_def example_outcomes example_article_def outcome_imageUrl_def
          example_payload_imageUrl example_empty_imageUrl
          failure_placeholder_def default_placeholder_def example_GoogleGenAI_def)
  finally show ?thesis .
qed

lemma length_image_requests: "length (image_requests ps) = length ps"
  by (simp add: image_requests_def)

lemma map_text_entries:
  "length ps = length os \<Longrightarrow>
   map text' (map2 (\<lambda>p outcome. \<lparr>text' = paragraph' p, imageUrl = outcome_imageUrl outcome\<rparr>) ps os) =
   map paragraph' ps"
  by (induction ps os rule: list_induct2) auto

lemma map_imageUrl_entries:
  "length ps = length os \<Longrightarrow>
   map imageUrl (map2 (\<lambda>p outcome. \<lparr>text' = paragraph' p, imageUrl = outcome_imageUrl outcome\<rparr>) ps os) =
   map outcome_imageUrl os"
  by (induction ps os rule: list_induct2) auto

lemma nth_entries:
  "j < length ps \<Longrightarrow> length os = length ps \<Longrightarrow>
   map2 (\<lambda>p outcome. \<lparr>text' = paragraph' p, imageUrl = outcome_imageUrl outcome\<rparr>) ps os ! j =
   \<lparr>text' = paragraph' (ps ! j), imageUrl = outcome_imageUrl (os ! j)\<rparr>"
  by simp

lemma placeholders_distinct: "default_placeholder \<noteq> failure_placeholder"
  by (simp add: default_placeholder_def failure_placeholder_def js_def)

lemma imagePart_None:
  assumes "inline_payloads r = []"
  shows "imagePart r = None"
proof (cases "candidates r")
  case None
  then show ?thesis by (simp add: imagePart_def)
next
  case (Some cs)
  show ?thesis
  proof (cases cs)
    case Nil
    with Some show ?thesis by (simp add: imagePart_def)
  next
    case (Cons c cs')
    show ?thesis
    proof (cases "content c")
      case None
      with Some Cons show ?thesis by (simp add: imagePart_def)
    next
      case ct: (Some ct)
      show ?thesis
      proof (cases "parts ct")
        case None
        with Some Cons ct show ?thesis by (simp add: imagePart_def)
      next
        case ps: (Some ps)
        from assms Some Cons ct ps have "List.map_filter inlineData ps = []"
          by (simp add: inline_payloads_def)
        then have "\<forall>p\<in>set ps. inlineData p = None"
          by (auto simp: map_filter_def filter_empty_conv)
        then have "find (\<lambda>p. inlineData p \<noteq> None) ps = None"
          by (simp add: find_None_iff)
        with Some Cons ct ps show ?thesis by (simp add: imagePart_def)
      qed
    qed
  qed
qed

section \<open>The claims\<close>

text \<open>
  C1. Whenever \<open>generateKidArticle\<close> succeeds, the text call returned a non-empty raw
  text, the text phase produced paragraphs from it (the parsed array, or the non-blank
  lines of the raw text), and the result has one entry per paragraph, in the same order:
  same length, at least 5, the texts are the paragraphs in order, the image references
  are those of the outcomes of the image calls in order, and none is empty.
\<close>

theorem generateKidArticle_result_complete:
  assumes "fst (generateKidArticle GoogleGenAI JSON_parse API_KEY t w) = Inr result"
  shows "\<exists>r raw paragraphsData w1.
           GoogleGenAI (the API_KEY) (article_request t) (service w) = (Inr r, service w1) \<and>
           resp_text r = Some raw \<and>
           text_phase (GoogleGenAI (the API_KEY)) JSON_parse t w = (Inr paragraphsData, w1) \<and>
           (JSON_parse raw = Inr (Array paragraphsData) \<or>
            paragraphsData = map (\<lambda>line. \<lparr>paragraph' = line\<rparr>) (nonblank_lines raw)) \<and>
           length result = length paragraphsData \<and> 5 \<le> length result \<and>
           map text' result = map paragraph' paragraphsData \<and>
           map imageUrl result =
             map outcome_imageUrl
               (call_outcomes (GoogleGenAI (the API_KEY)) (image_requests paragraphsData)
                  (service w1)) \<and>
           (\<forall>entry\<in>set result. imageUrl entry \<noteq> [])"
proof -
  let ?ai = "GoogleGenAI (the API_KEY)"
  from generateKidArticle_Inr [OF assms]
  obtain ps w1 where key: "truthy API_KEY"
    and tp: "text_phase ?ai JSON_parse t w = (Inr ps, w1)"
    by blast
  let ?os = "call_outcomes ?ai (image_requests ps) (service w1)"
  have len: "length ps = length ?os"
    by (simp add: length_call_outcomes length_image_requests)
  from generateKidArticle_run [where GoogleGenAI = GoogleGenAI, OF key tp] assms
  have res: "result =
      map2 (\<lambda>p outcome. \<lparr>text' = paragraph' p, imageUrl = outcome_imageUrl outcome\<rparr>) ps ?os"
    by simp
  from text_phase_Inr [OF tp]
  obtain r raw where call: "?ai (article_request t) (service w) = (Inr r, service w1)"
    and raw: "resp_text r = Some raw"
    and pp: "parse_paragraphs JSON_parse raw = Inr ps"
    by blast
  from parse_paragraphs_Inr [OF pp]
  have five: "5 \<le> length ps"
    and origin: "JSON_parse raw = Inr (Array ps) \<or>
                 ps = map (\<lambda>line. \<lparr>paragraph' = line\<rparr>) (nonblank_lines raw)"
    by simp_all
  have l: "length result = length ps" using res len by simp
  have t: "map text' result = map paragraph' ps"
    unfolding res by (rule map_text_entries [OF len])
  have i: "map imageUrl result = map outcome_imageUrl ?os"
    unfolding res by (rule map_imageUrl_entries [OF len])
  have n: "\<forall>entry\<in>set result. imageUrl entry \<noteq> []"
  proof
    fix entry assume "entry \<in> set result"
    then have "imageUrl entry \<in> set (map imageUrl result)" by simp
    then have "imageUrl entry \<in> outcome_imageUrl ` set ?os" by (simp only: i set_map)
    then obtain x where "imageUrl entry = outcome_imageUrl x" by (rule imageE)
    then show "imageUrl entry \<noteq> []"
      using outcome_imageUrl_not_Nil [of x] by simp
  qed
  from call raw tp origin l five t i n show ?thesis
    by (intro exI [of _ r] exI [of _ raw] exI [of _ ps] exI [of _ w1]) simp
qed

theorem generateKidArticle_result_complete_witness:
  "fst (generateKidArticle example_GoogleGenAI example_parse (Some (js ''key''))
          (js ''a giant cookie was baked'') example_world) = Inr example_article \<and>
   length example_article = 5 \<and>
   map text' example_article = map js [''a'', ''b'', ''c'', ''d'', ''e''] \<and>
   (\<exists>paragraphsData w1.
      text_phase (example_GoogleGenAI (js ''key'')) example_parse
        (js ''a giant cookie was baked'') example_world = (Inr paragraphsData, w1) \<and>
      length example_article = length paragraphsData \<and>
      map text' example_article = map paragraph' paragraphsData)"
proof -
  have h: "fst (generateKidArticle example_GoogleGenAI example_parse (Some (js ''key''))
             (js ''a giant cookie was baked'') example_world) = Inr example_article"
    by (simp add: example_run)
  have "length example_article = 5"
    and "map text' example_article = map js [''a'', ''b'', ''c'', ''d'', ''e'']"
    by (simp_all add: example_article_def)
  with h generateKidArticle_result_complete [OF h] show ?thesis
    by auto
qed

text \<open>
  C2, at a failing input. The text answer is a JSON array of three paragraph objects
  printed on five lines. The \<^verbatim>\<open>try\<close> block throws its "at least 5 paragraphs" error,
  the \<^verbatim>\<open>catch\<close> block around it takes the five lines of the raw text as paragraphs,
  and \<open>generateKidArticle\<close> issues five image requests and succeeds.
\<close>

theorem short_array_takes_fallback:
  "short_json_parse short_json =
     Inr (Array [\<lparr>paragraph' = js ''a''\<rparr>, \<lparr>paragraph' = js ''b''\<rparr>, \<lparr>paragraph' = js ''c''\<rparr>]) \<and>
   try_parse short_json_parse short_json =
     Inl (new_Error (js ''Generated article does not contain at least 5 paragraphs or is not in the expected format.'')) \<and>
   generateKidArticle short_json_GoogleGenAI short_json_parse (Some (js ''key''))
     (js ''a giant cookie was baked'') example_world =
     (Inr (map (\<lambda>line. \<lparr>text' = line, imageUrl = js ''data:image/png;base64,iVBORw0KGgo=''\<rparr>)
             [js ''['', js ''{\"paragraph\":\"a\"},'', js ''{\"paragraph\":\"b\"},'',
              js ''{\"paragraph\":\"c\"}'', js '']'']),
      \<lparr>service = 6,
       issued = article_request (js ''a giant cookie was baked'') #
         map paragraph_image_request
           [js ''['', js ''{\"paragraph\":\"a\"},'', js ''{\"paragraph\":\"b\"},'',
            js ''{\"paragraph\":\"c\"}'', js '']'']\<rparr>)"
proof -
  let ?lines = "[js ''['', js ''{\"paragraph\":\"a\"},'', js ''{\"paragraph\":\"b\"},'',
                 js ''{\"paragraph\":\"c\"}'', js '']'']"
  have p: "short_json_parse short_json =
     Inr (Array [\<lparr>paragraph' = js ''a''\<rparr>, \<lparr>paragraph' = js ''b''\<rparr>, \<lparr>paragraph' = js ''c''\<rparr>])"
    by (simp add: short_json_parse_def)
  have t: "try_parse short_json_parse short_json =
     Inl (new_Error (js ''Generated article does not contain at least 5 paragraphs or is not in the expected format.''))"
    by (simp add: try_parse_def p)
  have n: "nonblank_lines short_json = ?lines"
    by (simp add: nonblank_lines_def short_json_def js_def trim_def
          isWhiteSpace_def isLineTerminator_def)
  have ne: "short_json \<noteq> []" by (simp add: short_json_def js_def)
  have tp: "text_phase (short_json_GoogleGenAI k) short_json_parse t example_world =
     (Inr (map (\<lambda>line. \<lparr>paragraph' = line\<rparr>) ?lines),
      \<lparr>service = Suc 0, issued = [article_request t]\<rparr>)" for k t
    using ne
    by (simp add: text_phase_def generateContent_def short_json_GoogleGenAI_def example_world_def
          truthy_def parse_paragraphs_def t fallback_lines_eq n)
  have "generateKidArticle short_json_GoogleGenAI short_json_parse (Some (js ''key''))
     (js ''a giant cookie was baked'') example_world =
     (Inr (map (\<lambda>line. \<lparr>text' = line, imageUrl = js ''data:image/png;base64,iVBORw0KGgo=''\<rparr>) ?lines),
      \<lparr>service = 6,
       issued = article_request (js ''a giant cookie was baked'') #
         map paragraph_image_request ?lines\<rparr>)"
    by (simp add: generateKidArticle_run [where GoogleGenAI = short_json_GoogleGenAI, OF example_key tp]
          image_requests_def short_json_GoogleGenAI_def outcome_imageUrl_def
          example_payload_imageUrl)
  with p t show ?thesis by simp
qed

text \<open>
  C3. When the text phase has produced its paragraphs and the image call for paragraph
  \<open>k\<close> throws, \<open>generateKidArticle\<close> still succeeds: the result has one entry per
  paragraph, entry \<open>k\<close> is the paragraph with the failure placeholder, every entry is
  the paragraph with the image reference of its own call's outcome, and an image request
  was issued for every paragraph, those after \<open>k\<close> included.
\<close>

theorem image_failure_not_escalated:
  assumes "truthy API_KEY"
    and "text_phase (GoogleGenAI (the API_KEY)) JSON_parse t w = (Inr paragraphsData, w1)"
    and "k < length paragraphsData"
    and "call_outcomes (GoogleGenAI (the API_KEY)) (image_requests paragraphsData) (service w1) ! k =
           Inl imageError"
  shows "\<exists>result w2.
           generateKidArticle GoogleGenAI JSON_parse API_KEY t w = (Inr result, w2) \<and>
           length result = length paragraphsData \<and>
           result ! k =
             \<lparr>text' = paragraph' (paragraphsData ! k), imageUrl = failure_placeholder\<rparr> \<and>
           (\<forall>j<length paragraphsData.
              result ! j =
                \<lparr>text' = paragraph' (paragraphsData ! j),
                 imageUrl = outcome_imageUrl
                   (call_outcomes (GoogleGenAI (the API_KEY)) (image_requests paragraphsData)
                      (service w1) ! j)\<rparr>) \<and>
           issued w2 = issued w1 @ image_requests paragraphsData"
proof -
  let ?os = "call_outcomes (GoogleGenAI (the API_KEY)) (image_requests paragraphsData) (service w1)"
  have len: "length ?os = length paragraphsData"
    by (simp add: length_call_outcomes length_image_requests)
  have "outcome_imageUrl (?os ! k) = failure_placeholder"
    using assms(4) by (simp add: outcome_imageUrl_def)
  then show ?thesis
    using generateKidArticle_run [where GoogleGenAI = GoogleGenAI, OF assms(1,2)] assms(3) len
    by (simp add: nth_entries)
qed

theorem image_failure_not_escalated_witness:
  "\<exists>result w2.
     generateKidArticle example_GoogleGenAI example_parse (Some (js ''key''))
       (js ''a giant cookie was baked'') example_world = (Inr result, w2) \<and>
     length result = 5 \<and>
     result ! 1 = \<lparr>text' = js ''b'', imageUrl = failure_placeholder\<rparr> \<and>
     issued w2 =
       article_request (js ''a giant cookie was baked'') #
       map paragraph_image_request [js ''a'', js ''b'', js ''c'', js ''d'', js ''e'']"
proof -
  let ?ps = "map (\<lambda>line. \<lparr>paragraph' = line\<rparr>) [js ''a'', js ''b'', js ''c'', js ''d'', js ''e'']"
  let ?w1 = "\<lparr>service = Suc 0, issued = [article_request (js ''a giant cookie was baked'')]\<rparr>"
  have k: "1 < length ?ps" by simp
  have o: "call_outcomes (example_GoogleGenAI (the (Some (js ''key'')))) (image_requests ?ps)
             (service ?w1) ! 1 = Inl (new_Error (js ''503 Service Unavailable''))"
    by (simp add: image_requests_def example_GoogleGenAI_def)
  from image_failure_not_escalated
         [where GoogleGenAI = example_GoogleGenAI, OF example_key example_text_phase k o]
  show ?thesis
    by (auto simp: image_requests_def)
qed

text \<open>
  C4. When the image call for paragraph \<open>k\<close> returns a response that holds no inline
  payload at all, entry \<open>k\<close> of the result is the paragraph with the default
  placeholder, which is not the failure placeholder.
\<close>

theorem missing_payload_placeholder:
  assumes "truthy API_KEY"
    and "text_phase (GoogleGenAI (the API_KEY)) JSON_parse t w = (Inr paragraphsData, w1)"
    and "k < length paragraphsData"
    and "call_outcomes (GoogleGenAI (the API_KEY)) (image_requests paragraphsData) (service w1) ! k =
           Inr imageResponse"
    and "inline_payloads imageResponse = []"
  shows "\<exists>result w2.
           generateKidArticle GoogleGenAI JSON_parse API_KEY t w = (Inr result, w2) \<and>
           length result = length paragraphsData \<and>
           result ! k =
             \<lparr>text' = paragraph' (paragraphsData ! k), imageUrl = default_placeholder\<rparr> \<and>
           default_placeholder \<noteq> failure_placeholder"
proof -
  let ?os = "call_outcomes (GoogleGenAI (the API_KEY)) (image_requests paragraphsData) (service w1)"
  have len: "length ?os = length paragraphsData"
    by (simp add: length_call_outcomes length_image_requests)
  have "outcome_imageUrl (?os ! k) = default_placeholder"
    using assms(4) imagePart_None [OF assms(5)]
    by (simp add: outcome_imageUrl_def response_imageUrl_def)
  then show ?thesis
    using generateKidArticle_run [where GoogleGenAI = GoogleGenAI, OF assms(1,2)] assms(3) len placeholders_distinct
    by (simp add: nth_entries)
qed

theorem missing_payload_placeholder_witness:
  "\<exists>result w2.
     generateKidArticle example_GoogleGenAI example_parse (Some (js ''key''))
       (js ''a giant cookie was baked'') example_world = (Inr result, w2) \<and>
     result ! 2 = \<lparr>text' = js ''c'', imageUrl = default_placeholder\<rparr> \<and>
     default_placeholder \<noteq> failure_placeholder"
proof -
  let ?ps = "map (\<lambda>line. \<lparr>paragraph' = line\<rparr>) [js ''a'', js ''b'', js ''c'', js ''d'', js ''e'']"
  let ?w1 = "\<lparr>service = Suc 0, issued = [article_request (js ''a giant cookie was baked'')]\<rparr>"
  have k: "2 < length ?ps" by simp
  have o: "call_outcomes (example_GoogleGenAI (the (Some (js ''key'')))) (image_requests ?ps)
             (service ?w1) ! 2 = Inr \<lparr>resp_text = None, candidates = Some []\<rparr>"
    by (simp add: image_requests_def example_GoogleGenAI_def)
  have p: "inline_payloads \<lparr>resp_text = None, candidates = Some []\<rparr> = []"
    by (simp add: inline_payloads_def)
  from missing_payload_placeholder
         [where GoogleGenAI = example_GoogleGenAI, OF example_key example_text_phase k o p]
  show ?thesis
    by auto
qed

text \<open>
  C5. When the text call returns a non-empty raw text on which \<^verbatim>\<open>JSON.parse\<close> throws
  or returns a value that is not an array, the paragraphs of the text phase are exactly
  the non-blank lines of the raw text, one paragraph per line, in order; the lines are
  pieces without a line feed that give the raw text back when joined with line feeds.
  With fewer than 5 non-blank lines \<open>generateKidArticle\<close> fails with an error whose
  message ends with the raw text, after the text request alone.
\<close>

theorem fallback_on_parse_failure:
  assumes "truthy API_KEY"
    and "GoogleGenAI (the API_KEY) (article_request t) (service w) = (Inr r, s1)"
    and "resp_text r = Some raw" and "raw \<noteq> []"
    and "JSON_parse raw = Inl e \<or> JSON_parse raw = Inr NonArray"
  shows "join_nl (split_nl raw) = raw \<and>
         (\<forall>line\<in>set (split_nl raw). 0x000A \<notin> set line) \<and>
         text_phase (GoogleGenAI (the API_KEY)) JSON_parse t w =
           (if length (nonblank_lines raw) < 5
            then Inl (new_Error
                   (js ''Failed to parse article text or generate enough paragraphs. Raw response: '' @ raw))
            else Inr (map (\<lambda>line. \<lparr>paragraph' = line\<rparr>) (nonblank_lines raw)),
            \<lparr>service = s1, issued = issued w @ [article_request t]\<rparr>) \<and>
         (length (nonblank_lines raw) < 5 \<longrightarrow>
            generateKidArticle GoogleGenAI JSON_parse API_KEY t w =
              (Inl (new_Error
                     (js ''Failed to parse article text or generate enough paragraphs. Raw response: '' @ raw)),
               \<lparr>service = s1, issued = issued w @ [article_request t]\<rparr>) \<and>
            includes_str
              (js ''Failed to parse article text or generate enough paragraphs. Raw response: '' @ raw)
              raw)"
proof -
  have pp: "parse_paragraphs JSON_parse raw = fallback_lines raw"
    using assms(5) by (auto simp: parse_paragraphs_def try_parse_def)
  have tp: "text_phase (GoogleGenAI (the API_KEY)) JSON_parse t w =
              (fallback_lines raw, \<lparr>service = s1, issued = issued w @ [article_request t]\<rparr>)"
    using assms(2,3,4) by (simp add: text_phase_def generateContent_def truthy_def pp)
  have gen: "generateKidArticle GoogleGenAI JSON_parse API_KEY t w =
               (Inl err, \<lparr>service = s1, issued = issued w @ [article_request t]\<rparr>)"
    if "fallback_lines raw = Inl err" for err
    using assms(1) that by (simp add: generateKidArticle_def Let_def tp)
  show ?thesis
    using tp gen
    by (simp add: fallback_lines_eq join_split_nl split_nl_no_newline includes_str_append)
qed

theorem fallback_on_parse_failure_witness:
  "text_phase (example_GoogleGenAI (js ''key'')) example_parse (js ''a giant cookie was baked'')
     example_world =
     (Inr (map (\<lambda>line. \<lparr>paragraph' = line\<rparr>) [js ''a'', js ''b'', js ''c'', js ''d'', js ''e'']),
      \<lparr>service = Suc 0, issued = [article_request (js ''a giant cookie was baked'')]\<rparr>) \<and>
   generateKidArticle
     (constant_GoogleGenAI (Inr \<lparr>resp_text = Some (js ''one\<newline>\<newline>two''), candidates = None\<rparr>))
     example_parse (Some (js ''key'')) (js ''a giant cookie was baked'') unit_world =
     (Inl (new_Error
            (js ''Failed to parse article text or generate enough paragraphs. Raw response: '' @
             js ''one\<newline>\<newline>two'')),
      \<lparr>service = (), issued = [article_request (js ''a giant cookie was baked'')]\<rparr>)"
proof -
  have p: "example_parse raw = Inl syntax_error \<or> example_parse raw = Inr NonArray" for raw
    by (simp add: example_parse_def)
  have c1: "example_GoogleGenAI (the (Some (js ''key''))) (article_request (js ''a giant cookie was baked''))
              (service example_world) =
            (Inr \<lparr>resp_text = Some example_raw, candidates = None\<rparr>, Suc 0)"
    by (simp add: example_GoogleGenAI_def example_world_def)
  have r1: "resp_text \<lparr>resp_text = Some example_raw, candidates = None\<rparr> = Some example_raw"
    by simp
  have n1: "example_raw \<noteq> []" by (simp add: example_raw_def js_def)
  have c2: "constant_GoogleGenAI (Inr \<lparr>resp_text = Some (js ''one\<newline>\<newline>two''), candidates = None\<rparr>)
              (the (Some (js ''key''))) (article_request (js ''a giant cookie was baked''))
              (service unit_world) =
            (Inr \<lparr>resp_text = Some (js ''one\<newline>\<newline>two''), candidates = None\<rparr>, ())"
    by (simp add: constant_GoogleGenAI_def)
  have r2: "resp_text \<lparr>resp_text = Some (js ''one\<newline>\<newline>two''), candidates = None\<rparr> =
            Some (js ''one\<newline>\<newline>two'')"
    by simp
  have n2: "js ''one\<newline>\<newline>two'' \<noteq> []" by (simp add: js_def)
  have l2: "length (nonblank_lines (js ''one\<newline>\<newline>two'')) = 2"
    by (simp add: nonblank_lines_def js_def trim_def isWhiteSpace_def isLineTerminator_def)
  from fallback_on_parse_failure
         [where GoogleGenAI = example_GoogleGenAI, OF example_key c1 r1 n1 p]
  have "text_phase (example_GoogleGenAI (js ''key'')) example_parse (js ''a giant cookie was baked'')
          example_world =
        (Inr (map (\<lambda>line. \<lparr>paragraph' = line\<rparr>) [js ''a'', js ''b'', js ''c'', js ''d'', js ''e'']),
         \<lparr>service = Suc 0, issued = [article_request (js ''a giant cookie was baked'')]\<rparr>)"
    by (simp add: example_nonblank_lines example_world_def)
  moreover
  from fallback_on_parse_failure
         [where GoogleGenAI = "constant_GoogleGenAI
            (Inr \<lparr>resp_text = Some (js ''one\<newline>\<newline>two''), candidates = None\<rparr>)",
          OF example_key c2 r2 n2 p]
  have "generateKidArticle
     (constant_GoogleGenAI (Inr \<lparr>resp_text = Some (js ''one\<newline>\<newline>two''), candidates = None\<rparr>))
     example_parse (Some (js ''key'')) (js ''a giant cookie was baked'') unit_world =
     (Inl (new_Error
            (js ''Failed to parse article text or generate enough paragraphs. Raw response: '' @
             js ''one\<newline>\<newline>two'')),
      \<lparr>service = (), issued = [article_request (js ''a giant cookie was baked'')]\<rparr>)"
    by (simp add: l2 unit_world_def)
  ultimately show ?thesis by simp
qed

text \<open>
  C6. With no truthy credential (undefined, or the empty string), each of the four
  generation functions fails with the error "API_KEY environment variable is not set"
  and leaves the world as it was: no request is issued.
\<close>

theorem missing_credential_is_immediate:
  assumes "\<not> truthy API_KEY"
  shows "generateKidArticle GoogleGenAI JSON_parse API_KEY t w = (Inl API_KEY_not_set, w) \<and>
         generateImage GoogleGenAI API_KEY prompt imageSize opts w = (Inl API_KEY_not_set, w) \<and>
         editImage GoogleGenAI API_KEY originalData originalMimeType editPrompt w =
           (Inl API_KEY_not_set, w) \<and>
         getQuickResponse GoogleGenAI API_KEY prompt w = (Inl API_KEY_not_set, w) \<and>
         message API_KEY_not_set =
           Some (js ''API_KEY environment variable is not set. Please configure your API key.'')"
  using assms
  by (simp add: generateKidArticle_def generateImage_def editImage_def getQuickResponse_def
        API_KEY_not_set_def new_Error_def)

theorem missing_credential_is_immediate_witness:
  "generateKidArticle example_GoogleGenAI example_parse None (js ''a giant cookie was baked'')
     example_world = (Inl API_KEY_not_set, example_world) \<and>
   generateImage example_GoogleGenAI None (js ''a dinosaur'') Size2K None example_world =
     (Inl API_KEY_not_set, example_world) \<and>
   editImage example_GoogleGenAI None (js ''iVBORw0KGgo='') (js ''image/png'') (js ''add a hat'')
     example_world = (Inl API_KEY_not_set, example_world) \<and>
   getQuickResponse example_GoogleGenAI None (js ''Why do cats purr?'') example_world =
     (Inl API_KEY_not_set, example_world) \<and>
   issued example_world = []"
proof -
  have n: "\<not> truthy None" by (simp add: truthy_def)
  from missing_credential_is_immediate [OF n, of example_GoogleGenAI] show ?thesis
    by (simp add: example_world_def)
qed

text \<open>
  C7, as the code has it. \<open>generateKidArticle\<close> does not look at the topic: with a
  blank topic it issues the text request and the image requests, and can succeed.
\<close>

theorem blank_topic_reaches_service:
  "trim (js '' '') = [] \<and>
   generateKidArticle example_GoogleGenAI example_parse (Some (js ''key'')) (js '' '')
     example_world =
     (Inr example_article,
      \<lparr>service = 6,
       issued = article_request (js '' '') #
         map paragraph_image_request [js ''a'', js ''b'', js ''c'', js ''d'', js ''e'']\<rparr>)"
proof -
  have "trim (js '' '') = []"
    by (simp add: trim_def js_def isWhiteSpace_def)
  then show ?thesis by (simp add: example_run)
qed

text \<open>
  C7, amended. The topic is checked by the caller: for a topic that is empty after
  trimming, \<open>handleGenerateArticle\<close> sets the error message of the component, changes
  nothing else and leaves the world as it was, so no request is issued.
\<close>

theorem handleGenerateArticle_blank_topic:
  assumes "trim (topic st) = []"
  shows "handleGenerateArticle GoogleGenAI JSON_parse API_KEY st w =
           (st\<lparr>error := Some (js ''Please enter a current event topic to generate an article.'')\<rparr>,
            w)"
  using assms by (simp add: handleGenerateArticle_def)

theorem handleGenerateArticle_blank_topic_witness:
  "handleGenerateArticle example_GoogleGenAI example_parse (Some (js ''key'')) example_state
     example_world =
     (example_state
        \<lparr>error := Some (js ''Please enter a current event topic to generate an article.'')\<rparr>,
      example_world) \<and>
   issued example_world = []"
proof -
  have b: "trim (topic example_state) = []"
    by (simp add: example_state_def trim_def js_def isWhiteSpace_def)
  from handleGenerateArticle_blank_topic [OF b] show ?thesis
    by (simp add: example_world_def)
qed

text \<open>
  C8. When the text call returns a response whose text is undefined or empty,
  \<open>generateKidArticle\<close> fails with the error of the empty check. The result is the same
  for every \<^verbatim>\<open>JSON.parse\<close>, and the text request is the only request issued.
\<close>

theorem empty_text_response_is_fatal:
  assumes "truthy API_KEY"
    and "GoogleGenAI (the API_KEY) (article_request t) (service w) = (Inr r, s1)"
    and "\<not> truthy (resp_text r)"
  shows "generateKidArticle GoogleGenAI JSON_parse API_KEY t w =
           (Inl (new_Error (js ''Failed to get article text from Gemini API.'')),
            \<lparr>service = s1, issued = issued w @ [article_request t]\<rparr>)"
  using assms
  by (simp add: generateKidArticle_def text_phase_def generateContent_def Let_def)

theorem empty_text_response_is_fatal_witness:
  "generateKidArticle (constant_GoogleGenAI (Inr \<lparr>resp_text = Some [], candidates = None\<rparr>))
     short_json_parse (Some (js ''key'')) (js ''a giant cookie was baked'') unit_world =
     (Inl (new_Error (js ''Failed to get article text from Gemini API.'')),
      \<lparr>service = (), issued = [article_request (js ''a giant cookie was baked'')]\<rparr>)"
proof -
  have c: "constant_GoogleGenAI (Inr \<lparr>resp_text = Some [], candidates = None\<rparr>)
             (the (Some (js ''key''))) (article_request (js ''a giant cookie was baked''))
             (service unit_world) =
           (Inr \<lparr>resp_text = Some [], candidates = None\<rparr>, ())"
    by (simp add: constant_GoogleGenAI_def)
  have e: "\<not> truthy (resp_text \<lparr>resp_text = Some [], candidates = None\<rparr>)"
    by (simp add: truthy_def)
  from empty_text_response_is_fatal
         [where GoogleGenAI = "constant_GoogleGenAI (Inr \<lparr>resp_text = Some [], candidates = None\<rparr>)",
          OF example_key c e]
  show ?thesis
    by (simp add: unit_world_def)
qed

text \<open>
  C9. With a credential, \<open>getQuickResponse\<close> issues one request; it returns the text of
  the response when that is a non-empty string, the fixed fallback string when the text is
  undefined or empty, and when the call throws it fails with an error that carries the
  thrown message (or "An unknown error occurred.").
\<close>

theorem getQuickResponse_cases:
  assumes "truthy API_KEY"
    and "GoogleGenAI (the API_KEY) (quick_request prompt) (service w) = (outcome, s1)"
  shows "(\<forall>r answer. outcome = Inr r \<and> resp_text r = Some answer \<and> answer \<noteq> [] \<longrightarrow>
            fst (getQuickResponse GoogleGenAI API_KEY prompt w) = Inr answer) \<and>
         (\<forall>r. outcome = Inr r \<and> \<not> truthy (resp_text r) \<longrightarrow>
            fst (getQuickResponse GoogleGenAI API_KEY prompt w) = Inr quick_fallback) \<and>
         (\<forall>e. outcome = Inl e \<longrightarrow>
            fst (getQuickResponse GoogleGenAI API_KEY prompt w) =
              Inl (new_Error
                    (js ''Failed to get quick response: '' @
                     or_else (message e) (js ''An unknown error occurred.'')))) \<and>
         snd (getQuickResponse GoogleGenAI API_KEY prompt w) =
           \<lparr>service = s1, issued = issued w @ [quick_request prompt]\<rparr>"
  using assms
  by (cases outcome)
     (auto simp: getQuickResponse_def generateContent_def Let_def or_else_def truthy_def)

theorem getQuickResponse_cases_witness:
  "fst (getQuickResponse
          (constant_GoogleGenAI (Inr \<lparr>resp_text = Some (js ''Cats purr when happy!''), candidates = None\<rparr>))
          (Some (js ''key'')) (js ''Why do cats purr?'') unit_world) =
     Inr (js ''Cats purr when happy!'') \<and>
   fst (getQuickResponse
          (constant_GoogleGenAI (Inr \<lparr>resp_text = None, candidates = None\<rparr>))
          (Some (js ''key'')) (js ''Why do cats purr?'') unit_world) =
     Inr quick_fallback \<and>
   fst (getQuickResponse
          (constant_GoogleGenAI (Inl (new_Error (js ''503 Service Unavailable''))))
          (Some (js ''key'')) (js ''Why do cats purr?'') unit_world) =
     Inl (new_Error (js ''Failed to get quick response: '' @ js ''503 Service Unavailable''))"
proof -
  have c: "constant_GoogleGenAI outcome (the (Some (js ''key''))) (quick_request (js ''Why do cats purr?''))
             (service unit_world) = (outcome, ())" for outcome
    by (simp add: constant_GoogleGenAI_def)
  have T: "(\<forall>r answer. outcome = Inr r \<and> resp_text r = Some answer \<and> answer \<noteq> [] \<longrightarrow>
            fst (getQuickResponse (constant_GoogleGenAI outcome) (Some (js ''key''))
                   (js ''Why do cats purr?'') unit_world) = Inr answer) \<and>
         (\<forall>r. outcome = Inr r \<and> \<not> truthy (resp_text r) \<longrightarrow>
            fst (getQuickResponse (constant_GoogleGenAI outcome) (Some (js ''key''))
                   (js ''Why do cats purr?'') unit_world) = Inr quick_fallback) \<and>
         (\<forall>e. outcome = Inl e \<longrightarrow>
            fst (getQuickResponse (constant_GoogleGenAI outcome) (Some (js ''key''))
                   (js ''Why do cats purr?'') unit_world) =
              Inl (new_Error
                    (js ''Failed to get quick response: '' @
                     or_else (message e) (js ''An unknown error occurred.''))))" for outcome
    using getQuickResponse_cases
            [where GoogleGenAI = "constant_GoogleGenAI outcome", OF example_key c]
    by blast
  have a: "js ''Cats purr when happy!'' \<noteq> []" and b: "js ''503 Service Unavailable'' \<noteq> []"
    by (simp_all add: js_def)
  have "fst (getQuickResponse
          (constant_GoogleGenAI (Inr \<lparr>resp_text = Some (js ''Cats purr when happy!''), candidates = None\<rparr>))
          (Some (js ''key'')) (js ''Why do cats purr?'') unit_world) =
     Inr (js ''Cats purr when happy!'')"
    using T [of "Inr \<lparr>resp_text = Some (js ''Cats purr when happy!''), candidates = None\<rparr>"] a
    by simp
  moreover have "fst (getQuickResponse
          (constant_GoogleGenAI (Inr \<lparr>resp_text = None, candidates = None\<rparr>))
          (Some (js ''key'')) (js ''Why do cats purr?'') unit_world) =
     Inr quick_fallback"
    using T [of "Inr \<lparr>resp_text = None, candidates = None\<rparr>"]
    by (simp add: truthy_def)
  moreover have "fst (getQuickResponse
          (constant_GoogleGenAI (Inl (new_Error (js ''503 Service Unavailable''))))
          (Some (js ''key'')) (js ''Why do cats purr?'') unit_world) =
     Inl (new_Error (js ''Failed to get quick response: '' @ js ''503 Service Unavailable''))"
    using T [of "Inl (new_Error (js ''503 Service Unavailable''))"] b
    by (simp add: or_else_def truthy_def new_Error_def)
  ultimately show ?thesis by simp
qed

text \<open>
  C10. The image phase leaves the paragraph texts alone: when the text phase has produced
  its paragraphs, \<open>generateKidArticle\<close> succeeds and the text of entry \<open>i\<close> of the
  result is paragraph \<open>i\<close>, whatever the service does with the image requests.
\<close>

theorem image_phase_preserves_text:
  assumes "truthy API_KEY"
    and "text_phase (GoogleGenAI (the API_KEY)) JSON_parse t w = (Inr paragraphsData, w1)"
    and "i < length paragraphsData"
  shows "\<exists>result w2.
           generateKidArticle GoogleGenAI JSON_parse API_KEY t w = (Inr result, w2) \<and>
           i < length result \<and>
           text' (result ! i) = paragraph' (paragraphsData ! i)"
proof -
  let ?os = "call_outcomes (GoogleGenAI (the API_KEY)) (image_requests paragraphsData) (service w1)"
  have len: "length ?os = length paragraphsData"
    by (simp add: length_call_outcomes length_image_requests)
  show ?thesis
    using generateKidArticle_run [where GoogleGenAI = GoogleGenAI, OF assms(1,2)] assms(3) len
    by (simp add: nth_entries)
qed

theorem image_phase_preserves_text_witness:
  "\<exists>result w2.
     generateKidArticle example_GoogleGenAI example_parse (Some (js ''key''))
       (js ''a giant cookie was baked'') example_world = (Inr result, w2) \<and>
     3 < length result \<and> text' (result ! 3) = js ''d''"
proof -
  let ?ps = "map (\<lambda>line. \<lparr>paragraph' = line\<rparr>) [js ''a'', js ''b'', js ''c'', js ''d'', js ''e'']"
  have i: "3 < length ?ps" by simp
  from image_phase_preserves_text
         [where GoogleGenAI = example_GoogleGenAI, OF example_key example_text_phase i]
  show ?thesis
    by auto
qed

end
